theory Spec2Isabelle
  imports
    Complex_Main
    "HOL-Library.List_Lexorder"
    "HOL-Library.Sublist"
    "HOL-Library.Multiset"
    "HOL-Library.AList"
begin

section \<open>Python values\<close>

text \<open>
  A Python \<open>str\<close> is a sequence of code points: \<open>len\<close> counts code points, and
  strings are compared lexicographically by code point (the order that
  \<open>HOL-Library.List_Lexorder\<close> gives lists). An ASCII literal of the source is written
  \<open>ascii ''...''\<close>, any other literal as the list of its code points. Strings are taken
  to hold characters that UTF-8 can encode (no lone surrogates), so that writing a
  string to a file never fails on its characters.
\<close>

type_synonym pystr = "nat list"

definition ascii :: "string \<Rightarrow> pystr" where
  "ascii s = map of_char s"

text \<open>The two-character literal (U+5168 U+90E8, "all") that both search functions
  compare the category argument with.\<close>

definition ALL_CATEGORY :: pystr where
  "ALL_CATEGORY = [20840, 37096]"

text \<open>\<open>sep.join(xs)\<close>.\<close>

fun join :: "pystr \<Rightarrow> pystr list \<Rightarrow> pystr" where
  "join sep [] = []"
| "join sep [x] = x"
| "join sep (x # y # ys) = x @ sep @ join sep (y # ys)"

text \<open>
  The values that occur in the metadata dictionaries: what \<open>json.load\<close> returns (without
  floats), and tuples and bytes, which PIL's EXIF dictionary holds and \<open>json\<close> treats
  differently. A dictionary is an association list in insertion order; its keys are
  strings or integers (an EXIF tag without a name keeps its numeric id as key).
\<close>

datatype pykey = KStr pystr | KInt int

datatype pyval =
    PNone
  | PBool bool
  | PInt int
  | PStr pystr
  | PBytes "nat list"
  | PList "pyval list"
  | PTuple "pyval list"
  | PDict "(pykey \<times> pyval) list"

text \<open>An exception, with the text \<open>str(e)\<close> gives for it.\<close>

datatype exn = Exn pystr

text \<open>\<open>d.get(k, default)\<close> on a dictionary with string keys.\<close>

definition dict_get :: "(pystr \<times> 'v) list \<Rightarrow> pystr \<Rightarrow> 'v \<Rightarrow> 'v" where
  "dict_get d k dflt = (case map_of d k of None \<Rightarrow> dflt | Some v \<Rightarrow> v)"

text \<open>
  \<open>xs.sort(key=f, reverse=True)\<close>: CPython reverses the list, sorts it stably in
  ascending key order and reverses it again, so equal keys keep their original order.
\<close>

definition py_sort_reverse :: "('a \<Rightarrow> 'k::linorder) \<Rightarrow> 'a list \<Rightarrow> 'a list" where
  "py_sort_reverse f xs = rev (sort_key f (rev xs))"

section \<open>Image metadata records and image search\<close>

text \<open>
  One value of \<open>ImageManager.metadata\<close>, as \<open>add_image\<close> builds it. The keys read with
  \<open>metadata[...]\<close> are plain fields; the keys read with \<open>metadata.get(..., default)\<close> or
  tested with \<open>in\<close> may be absent (\<open>_extract_image_info\<close> returns an empty dictionary
  when PIL fails, and then width, height, format, mode and exif are all missing).
\<close>

record image_record =
  original_name :: pystr
  path :: pystr
  thumbnail_path :: "pystr option"
  category :: pystr
  tags :: "pystr list"
  upload_time :: "pystr option"
  size_bytes :: "int option"
  width :: "int option"
  height :: "int option"
  format :: "pystr option"
  mode :: "pystr option"
  exif :: "(pykey \<times> pyval) list option"

text \<open>One element of the list \<open>search_images\<close> returns.\<close>

record image_result =
  r_file_name :: pystr
  r_original_name :: pystr
  r_path :: pystr
  r_thumbnail_path :: pystr
  r_category :: pystr
  r_tags :: "pystr list"
  r_width :: int
  r_height :: int
  r_size :: int
  r_upload_time :: pystr
  r_format :: pystr

definition make_image_result :: "pystr \<Rightarrow> image_record \<Rightarrow> image_result" where
  "make_image_result file_name m =
     \<lparr> r_file_name = file_name,
       r_original_name = original_name m,
       r_path = path m,
       r_thumbnail_path = (case thumbnail_path m of None \<Rightarrow> path m | Some t \<Rightarrow> t),
       r_category = category m,
       r_tags = tags m,
       r_width = (case width m of None \<Rightarrow> 0 | Some w \<Rightarrow> w),
       r_height = (case height m of None \<Rightarrow> 0 | Some h \<Rightarrow> h),
       r_size = (case size_bytes m of None \<Rightarrow> 0 | Some s \<Rightarrow> s),
       r_upload_time = (case upload_time m of None \<Rightarrow> [] | Some t \<Rightarrow> t),
       r_format = (case format m of None \<Rightarrow> [] | Some f \<Rightarrow> f) \<rparr>"

text \<open>
  The three \<open>continue\<close> tests of the loop in \<open>search_images\<close>. An argument that is
  \<open>None\<close> or empty is falsy and switches its test off. \<open>lower\<close> is \<open>str.lower\<close>
  (Unicode case mapping), a parameter of the model.
\<close>

definition category_skip :: "pystr option \<Rightarrow> pystr \<Rightarrow> bool" where
  "category_skip cat c =
     (case cat of None \<Rightarrow> False
      | Some q \<Rightarrow> q \<noteq> [] \<and> q \<noteq> ALL_CATEGORY \<and> c \<noteq> q)"

definition tags_skip :: "(pystr \<Rightarrow> pystr) \<Rightarrow> pystr list option \<Rightarrow> pystr list \<Rightarrow> bool" where
  "tags_skip lower tgs stored =
     (case tgs of None \<Rightarrow> False
      | Some ts \<Rightarrow> ts \<noteq> [] \<and> \<not> list_ex (\<lambda>tag. lower tag \<in> set (map lower stored)) ts)"

definition search_text :: "(pystr \<Rightarrow> pystr) \<Rightarrow> image_record \<Rightarrow> pystr" where
  "search_text lower m = lower (original_name m @ ascii '' '' @ join (ascii '' '') (tags m))"

definition query_skip :: "(pystr \<Rightarrow> pystr) \<Rightarrow> pystr \<Rightarrow> image_record \<Rightarrow> bool" where
  "query_skip lower q m = (q \<noteq> [] \<and> \<not> sublist (lower q) (search_text lower m))"

text \<open>
  The loop over \<open>self.metadata.items()\<close>, with \<open>results\<close> as accumulator;
  \<open>exists\<close> is \<open>os.path.exists\<close> on the current file system.
\<close>

fun search_images_loop ::
  "(pystr \<Rightarrow> pystr) \<Rightarrow> (pystr \<Rightarrow> bool) \<Rightarrow> pystr \<Rightarrow> pystr option \<Rightarrow> pystr list option \<Rightarrow>
   (pystr \<times> image_record) list \<Rightarrow> image_result list \<Rightarrow> image_result list" where
  "search_images_loop lower exists q cat tgs [] results = results"
| "search_images_loop lower exists q cat tgs ((file_name, m) # rest) results =
     (if category_skip cat (category m) then search_images_loop lower exists q cat tgs rest results
      else if tags_skip lower tgs (tags m) then search_images_loop lower exists q cat tgs rest results
      else if query_skip lower q m then search_images_loop lower exists q cat tgs rest results
      else if \<not> exists (path m) then search_images_loop lower exists q cat tgs rest results
      else search_images_loop lower exists q cat tgs rest
             (results @ [make_image_result file_name m]))"

definition search_images ::
  "(pystr \<Rightarrow> pystr) \<Rightarrow> (pystr \<Rightarrow> bool) \<Rightarrow> (pystr \<times> image_record) list \<Rightarrow>
   pystr \<Rightarrow> pystr option \<Rightarrow> pystr list option \<Rightarrow> image_result list" where
  "search_images lower exists metadata q cat tgs =
     py_sort_reverse r_upload_time (search_images_loop lower exists q cat tgs metadata [])"

section \<open>Document search\<close>

text \<open>
  A node of \<open>response.source_nodes\<close>: the chunk text, the metadata dictionary of the
  document it was cut from, and the \<open>score\<close> attribute. A score is a number or Python's
  \<open>None\<close> (the library's nodes carry \<open>None\<close> when no similarity was computed), written
  \<open>Some s\<close> and \<open>None\<close>; the field \<open>node_score\<close> is \<open>None\<close> when the node has no such
  attribute at all, and only then \<open>getattr(node, 'score', 0)\<close> gives its default 0.
\<close>

record node =
  node_text :: pystr
  node_metadata :: "(pystr \<times> pyval) list"
  node_score :: "real option option"

record doc_result =
  d_content :: pystr
  d_file_name :: pyval
  d_category :: pyval
  d_file_type :: pyval
  d_file_size :: pyval
  d_score :: "real option"

definition score_of :: "node \<Rightarrow> real option" where
  "score_of n = (case node_score n of None \<Rightarrow> Some 0 | Some s \<Rightarrow> s)"


definition preview :: "pystr \<Rightarrow> pystr" where
  "preview t = (if length t > 300 then take 300 t @ ascii ''...'' else t)"

definition make_doc_result :: "node \<Rightarrow> doc_result" where
  "make_doc_result n =
     \<lparr> d_content = preview (node_text n),
       d_file_name = dict_get (node_metadata n) (ascii ''file_name'') (PStr []),
       d_category = dict_get (node_metadata n) (ascii ''category'') (PStr []),
       d_file_type = dict_get (node_metadata n) (ascii ''file_type'') (PStr []),
       d_file_size = dict_get (node_metadata n) (ascii ''file_size'') (PInt 0),
       d_score = score_of n \<rparr>"

definition doc_category_skip :: "pystr option \<Rightarrow> pyval \<Rightarrow> bool" where
  "doc_category_skip cat c =
     (case cat of None \<Rightarrow> False
      | Some q \<Rightarrow> q \<noteq> [] \<and> q \<noteq> ALL_CATEGORY \<and> c \<noteq> PStr q)"

fun search_documents_loop :: "pystr option \<Rightarrow> node list \<Rightarrow> doc_result list \<Rightarrow> doc_result list" where
  "search_documents_loop cat [] results = results"
| "search_documents_loop cat (n # rest) results =
     (if doc_category_skip cat (d_category (make_doc_result n))
      then search_documents_loop cat rest results
      else search_documents_loop cat rest (results @ [make_doc_result n]))"

text \<open>
  \<open>search_documents\<close>. The index is \<open>None\<close> when \<open>_initialize_index\<close> failed. The query
  engine of the vector-index library is a parameter: given the index, \<open>top_k\<close> and the
  query it returns the source nodes or raises, and every exception is caught and turned
  into the empty list. \<open>top_k\<close> is the number of neighbours asked for, a natural number
  (the program passes 5 and 50).
\<close>

definition search_documents ::
  "('idx \<Rightarrow> nat \<Rightarrow> pystr \<Rightarrow> exn + node list) \<Rightarrow> 'idx option \<Rightarrow>
   pystr \<Rightarrow> pystr option \<Rightarrow> nat \<Rightarrow> doc_result list" where
  "search_documents query_engine index q cat top_k =
     (case index of
        None \<Rightarrow> []
      | Some idx \<Rightarrow>
          (case query_engine idx top_k q of
             Inl e \<Rightarrow> []
           | Inr source_nodes \<Rightarrow> search_documents_loop cat source_nodes []))"

section \<open>Paths\<close>

text \<open>\<open>os.path\<close> on a POSIX system: \<open>join\<close> of two parts, \<open>basename\<close> and \<open>splitext\<close>.\<close>

definition path_join :: "pystr \<Rightarrow> pystr \<Rightarrow> pystr" where
  "path_join a b =
     (if take 1 b = ascii ''/'' then b
      else if a = [] \<or> last a = 47 then a @ b
      else a @ ascii ''/'' @ b)"

definition basename :: "pystr \<Rightarrow> pystr" where
  "basename p = rev (takeWhile (\<lambda>c. c \<noteq> 47) (rev p))"

text \<open>
  The extension \<open>splitext\<close> returns: the part of the base name from its last dot, when
  a character other than a dot stands before that dot; leading dots of the base name
  never start an extension.
\<close>

definition file_extension :: "pystr \<Rightarrow> pystr" where
  "file_extension p =
     (let rest = dropWhile (\<lambda>c. c = 46) (basename p)
      in if 46 \<in> set rest then 46 # rev (takeWhile (\<lambda>c. c \<noteq> 46) (rev rest)) else [])"

definition splitext :: "pystr \<Rightarrow> pystr \<times> pystr" where
  "splitext p = (take (length p - length (file_extension p)) p, file_extension p)"

section \<open>The JSON document of the metadata store\<close>

datatype json =
    JNull
  | JBool bool
  | JInt int
  | JStr pystr
  | JArr "json list"
  | JObj "(pystr \<times> json) list"

text \<open>\<open>str(i)\<close> for an integer: the key \<open>json.dump\<close> writes for an integer dictionary key.\<close>

fun digits :: "nat \<Rightarrow> pystr" where
  "digits n = (if n < 10 then [48 + n] else digits (n div 10) @ [48 + n mod 10])"

definition str_of_int :: "int \<Rightarrow> pystr" where
  "str_of_int i = (if i < 0 then 45 # digits (nat (- i)) else digits (nat i))"

fun key_str :: "pykey \<Rightarrow> pystr" where
  "key_str (KStr s) = s"
| "key_str (KInt i) = str_of_int i"

text \<open>
  \<open>json.dump\<close>'s conversion table: a list and a tuple both become an array, a
  dictionary key becomes a string, and a value of any other type (here: bytes) raises
  \<open>TypeError\<close>, which is the result \<open>None\<close>.
\<close>

fun json_encode :: "pyval \<Rightarrow> json option" where
  "json_encode PNone = Some JNull"
| "json_encode (PBool b) = Some (JBool b)"
| "json_encode (PInt i) = Some (JInt i)"
| "json_encode (PStr s) = Some (JStr s)"
| "json_encode (PBytes b) = None"
| "json_encode (PList xs) = map_option JArr (those (map json_encode xs))"
| "json_encode (PTuple xs) = map_option JArr (those (map json_encode xs))"
| "json_encode (PDict kvs) =
     map_option JObj
       (those (map (\<lambda>kv. map_option (Pair (key_str (fst kv))) (json_encode (snd kv))) kvs))"

text \<open>\<open>dict(pairs)\<close>: a key that comes again overwrites the value at its first place.\<close>

definition dict_of_pairs :: "('k \<times> 'v) list \<Rightarrow> ('k \<times> 'v) list" where
  "dict_of_pairs kvs = foldl (\<lambda>d kv. AList.update (fst kv) (snd kv) d) [] kvs"

text \<open>\<open>json.load\<close>'s conversion table: an array becomes a list, an object a dictionary.\<close>

fun json_decode :: "json \<Rightarrow> pyval" where
  "json_decode JNull = PNone"
| "json_decode (JBool b) = PBool b"
| "json_decode (JInt i) = PInt i"
| "json_decode (JStr s) = PStr s"
| "json_decode (JArr xs) = PList (map json_decode xs)"
| "json_decode (JObj kvs) =
     PDict (dict_of_pairs (map (\<lambda>kv. (KStr (fst kv), json_decode (snd kv))) kvs))"

text \<open>
  The values that the two tables take to a document and back unchanged: no bytes, no
  tuples, and dictionaries with string keys only (and, as in every Python dictionary,
  no key twice).
\<close>

fun is_str_key :: "pykey \<Rightarrow> bool" where
  "is_str_key (KStr s) = True"
| "is_str_key (KInt i) = False"

fun json_native :: "pyval \<Rightarrow> bool" where
  "json_native PNone = True"
| "json_native (PBool b) = True"
| "json_native (PInt i) = True"
| "json_native (PStr s) = True"
| "json_native (PBytes b) = False"
| "json_native (PList xs) = list_all json_native xs"
| "json_native (PTuple xs) = False"
| "json_native (PDict kvs) =
     (distinct (map fst kvs) \<and>
      list_all (\<lambda>kv. is_str_key (fst kv) \<and> json_native (snd kv)) kvs)"

section \<open>The file system\<close>

text \<open>
  A path names a directory, a file or nothing. A file holds bytes (an image, a
  thumbnail), or the text of a JSON document, or text that no JSON parser accepts
  (\<open>Unparsable\<close>: what is left of a file opened for writing when \<open>json.dump\<close> raises
  before the document is complete). The serialiser and the parser of the \<open>json\<close> library
  are not modelled as text: a file written from the document \<open>j\<close> parses to \<open>j\<close>.
\<close>

datatype content = Binary "nat list" | Json_text json | Unparsable

datatype fsnode = Dir | File content

type_synonym fs = "pystr \<Rightarrow> fsnode option"

definition path_exists :: "fs \<Rightarrow> pystr \<Rightarrow> bool" where
  "path_exists files p = (files p \<noteq> None)"

text \<open>\<open>os.remove\<close>: removes a file; raises (\<open>None\<close>) for a directory or a missing path.\<close>

definition os_remove :: "fs \<Rightarrow> pystr \<Rightarrow> fs option" where
  "os_remove files p =
     (case files p of Some (File c) \<Rightarrow> Some (files(p := None)) | _ \<Rightarrow> None)"

text \<open>
  \<open>open(p, 'w')\<close> followed by writing the whole content: raises (\<open>None\<close>) when \<open>p\<close> is a
  directory. The directories the paths lie in are created by the constructors and are
  taken to exist.
\<close>

definition write_file :: "fs \<Rightarrow> pystr \<Rightarrow> content \<Rightarrow> fs option" where
  "write_file files p c =
     (case files p of Some Dir \<Rightarrow> None | _ \<Rightarrow> Some (files(p \<mapsto> File c)))"

text \<open>\<open>json.load\<close> of an opened file: any failure to open, decode or parse is \<open>None\<close>.\<close>

definition read_json :: "fs \<Rightarrow> pystr \<Rightarrow> pyval option" where
  "read_json files p =
     (case files p of Some (File (Json_text j)) \<Rightarrow> Some (json_decode j) | _ \<Rightarrow> None)"

definition load_metadata :: "fs \<Rightarrow> pystr \<Rightarrow> pyval" where
  "load_metadata files metadata_file =
     (if path_exists files metadata_file
      then (case read_json files metadata_file of Some v \<Rightarrow> v | None \<Rightarrow> PDict [])
      else PDict [])"

text \<open>
  \<open>_save_metadata\<close>: every exception is caught and only reported. When the file cannot
  be opened nothing changes; when \<open>json.dump\<close> raises, the file has been truncated by
  \<open>open\<close> and holds an incomplete document.
\<close>

definition save_metadata :: "fs \<Rightarrow> pystr \<Rightarrow> pyval \<Rightarrow> fs" where
  "save_metadata files metadata_file metadata =
     (case files metadata_file of
        Some Dir \<Rightarrow> files
      | _ \<Rightarrow>
          (case json_encode metadata of
             Some j \<Rightarrow> files(metadata_file \<mapsto> File (Json_text j))
           | None \<Rightarrow> files(metadata_file \<mapsto> File Unparsable)))"

text \<open>The dictionary \<open>self.metadata\<close> holds for a store of records; a missing key is left out.\<close>

definition opt_item :: "string \<Rightarrow> ('a \<Rightarrow> pyval) \<Rightarrow> 'a option \<Rightarrow> (pykey \<times> pyval) list" where
  "opt_item k f v = (case v of None \<Rightarrow> [] | Some x \<Rightarrow> [(KStr (ascii k), f x)])"

definition record_to_py :: "image_record \<Rightarrow> pyval" where
  "record_to_py m =
     PDict
       ([(KStr (ascii ''original_name''), PStr (original_name m)),
         (KStr (ascii ''path''), PStr (path m))]
        @ opt_item ''thumbnail_path'' PStr (thumbnail_path m)
        @ [(KStr (ascii ''category''), PStr (category m)),
           (KStr (ascii ''tags''), PList (map PStr (tags m)))]
        @ opt_item ''upload_time'' PStr (upload_time m)
        @ opt_item ''size'' PInt (size_bytes m)
        @ opt_item ''width'' PInt (width m)
        @ opt_item ''height'' PInt (height m)
        @ opt_item ''format'' PStr (format m)
        @ opt_item ''mode'' PStr (mode m)
        @ opt_item ''exif'' PDict (exif m))"

definition metadata_to_py :: "(pystr \<times> image_record) list \<Rightarrow> pyval" where
  "metadata_to_py md = PDict (map (\<lambda>kv. (KStr (fst kv), record_to_py (snd kv))) md)"

section \<open>The image manager\<close>

text \<open>
  The state of an \<open>ImageManager\<close>: the dictionary \<open>self.metadata\<close>, in insertion order,
  and the file system it works on.
\<close>

record state =
  metadata :: "(pystr \<times> image_record) list"
  files :: fs

definition images_dir :: "pystr \<Rightarrow> pystr" where
  "images_dir data_dir = path_join data_dir (ascii ''images'')"

definition thumbnails_dir :: "pystr \<Rightarrow> pystr" where
  "thumbnails_dir data_dir = path_join data_dir (ascii ''thumbnails'')"

definition metadata_file :: "pystr \<Rightarrow> pystr" where
  "metadata_file data_dir = path_join data_dir (ascii ''image_metadata.json'')"

text \<open>The object Streamlit hands over for an uploaded file.\<close>

record uploaded_file =
  up_name :: pystr
  up_type :: pystr
  up_getvalue :: "nat list"
  up_size :: int

text \<open>What \<open>_extract_image_info\<close> reads from an opened image.\<close>

record image_info =
  i_width :: int
  i_height :: int
  i_format :: pystr
  i_mode :: pystr
  i_exif :: "(pykey \<times> pyval) list"

text \<open>
  The libraries the image manager calls, as functions of the bytes they are given:
  \<open>hashlib.md5(b).hexdigest()\<close>, PIL's thumbnail of an image and PIL's reading of size,
  format, mode and EXIF. PIL raises on bytes that are no image: the result \<open>None\<close>.
\<close>

record image_libs =
  md5_hexdigest :: "nat list \<Rightarrow> pystr"
  pil_thumbnail :: "nat list \<Rightarrow> nat list option"
  pil_image_info :: "nat list \<Rightarrow> image_info option"

text \<open>The key of an upload in the store, which is also the name of its file.\<close>

definition file_id :: "image_libs \<Rightarrow> uploaded_file \<Rightarrow> pystr" where
  "file_id libs up = take 8 (md5_hexdigest libs (up_getvalue up)) @ ascii ''_'' @ up_name up"

text \<open>
  \<open>_generate_thumbnail\<close> returns the path of the thumbnail it wrote, or the path of the
  image itself when anything raised.
\<close>

definition generate_thumbnail :: "image_libs \<Rightarrow> pystr \<Rightarrow> fs \<Rightarrow> pystr \<Rightarrow> pystr \<times> fs" where
  "generate_thumbnail libs data_dir fls image_path =
     (let file_name = basename image_path;
          thumbnail_name = fst (splitext file_name) @ ascii ''_thumb'' @ snd (splitext file_name);
          thumbnail_path = path_join (thumbnails_dir data_dir) thumbnail_name
      in case fls image_path of
           Some (File (Binary b)) \<Rightarrow>
             (case pil_thumbnail libs b of
                None \<Rightarrow> (image_path, fls)
              | Some t \<Rightarrow>
                  (case write_file fls thumbnail_path (Binary t) of
                     None \<Rightarrow> (image_path, fls)
                   | Some fls' \<Rightarrow> (thumbnail_path, fls')))
         | _ \<Rightarrow> (image_path, fls))"

text \<open>\<open>_extract_image_info\<close>: \<open>None\<close> stands for the empty dictionary it returns on failure.\<close>

definition extract_image_info :: "image_libs \<Rightarrow> fs \<Rightarrow> pystr \<Rightarrow> image_info option" where
  "extract_image_info libs fls image_path =
     (case fls image_path of
        Some (File (Binary b)) \<Rightarrow> pil_image_info libs b
      | _ \<Rightarrow> None)"

definition allowed_types :: "pystr list" where
  "allowed_types =
     [ascii ''image/jpeg'', ascii ''image/png'', ascii ''image/gif'', ascii ''image/bmp'']"

text \<open>The dictionary \<open>add_image\<close> stores for an upload.\<close>

definition image_record_of ::
  "uploaded_file \<Rightarrow> pystr \<Rightarrow> pystr \<Rightarrow> pystr \<Rightarrow> pystr list option \<Rightarrow> pystr \<Rightarrow>
   image_info option \<Rightarrow> image_record" where
  "image_record_of up dest_path thumb cat tgs now info =
     \<lparr> original_name = up_name up,
       path = dest_path,
       thumbnail_path = Some thumb,
       category = cat,
       tags = (case tgs of None \<Rightarrow> [] | Some ts \<Rightarrow> ts),
       upload_time = Some now,
       size_bytes = Some (up_size up),
       width = map_option i_width info,
       height = map_option i_height info,
       format = map_option i_format info,
       mode = map_option i_mode info,
       exif = map_option i_exif info \<rparr>"

text \<open>
  \<open>add_image\<close>; \<open>now\<close> is \<open>datetime.now().isoformat()\<close> at the call, and \<open>tgs\<close> the
  optional tag list (\<open>tags or []\<close>). The only statement of the body that can raise is
  the writing of the image file; the three helpers catch their own exceptions.
\<close>

definition add_image ::
  "image_libs \<Rightarrow> pystr \<Rightarrow> pystr \<Rightarrow> state \<Rightarrow> uploaded_file \<Rightarrow> pystr \<Rightarrow> pystr list option \<Rightarrow>
   bool \<times> state" where
  "add_image libs data_dir now st up cat tgs =
     (if up_type up \<notin> set allowed_types then (False, st)
      else
        let file_name = file_id libs up;
            dest_path = path_join (images_dir data_dir) file_name
        in case write_file (files st) dest_path (Binary (up_getvalue up)) of
             None \<Rightarrow> (False, st)
           | Some fls1 \<Rightarrow>
               let thumb = generate_thumbnail libs data_dir fls1 dest_path;
                   info = extract_image_info libs (snd thumb) dest_path;
                   md = AList.update file_name
                          (image_record_of up dest_path (fst thumb) cat tgs now info)
                          (metadata st)
               in (True,
                   \<lparr> metadata = md,
                     files = save_metadata (snd thumb) (metadata_file data_dir) (metadata_to_py md) \<rparr>))"

text \<open>
  \<open>delete_image\<close>. A removal that raises ends the call in the \<open>except\<close> branch: the
  result is \<open>False\<close>, the entry stays, and a file removed before stays removed.
\<close>

definition remove_if_exists :: "fs \<Rightarrow> pystr \<Rightarrow> fs option" where
  "remove_if_exists fls p = (if path_exists fls p then os_remove fls p else Some fls)"

definition delete_image :: "pystr \<Rightarrow> state \<Rightarrow> pystr \<Rightarrow> bool \<times> state" where
  "delete_image data_dir st file_name =
     (case map_of (metadata st) file_name of
        None \<Rightarrow> (False, st)
      | Some m \<Rightarrow>
          (case remove_if_exists (files st) (path m) of
             None \<Rightarrow> (False, st)
           | Some fls1 \<Rightarrow>
               (case (case thumbnail_path m of
                        None \<Rightarrow> Some fls1
                      | Some t \<Rightarrow> remove_if_exists fls1 t) of
                  None \<Rightarrow> (False, st\<lparr>files := fls1\<rparr>)
                | Some fls2 \<Rightarrow>
                    let md = AList.delete file_name (metadata st)
                    in (True,
                        \<lparr> metadata = md,
                          files = save_metadata fls2 (metadata_file data_dir) (metadata_to_py md) \<rparr>))))"

section \<open>The document manager\<close>

text \<open>
  What the document manager reads from its environment: \<open>str.lower\<close>, the text of a
  file opened as UTF-8, the pages of a PDF (each page's \<open>extract_text\<close> may raise), the
  paragraphs of a Word document, \<open>os.path.getsize\<close> and \<open>shutil.copy2\<close> (its result is
  the exception it raised, if any). \<open>Inl\<close> is a raised exception.
\<close>

record doc_env =
  str_lower :: "pystr \<Rightarrow> pystr"
  read_text :: "pystr \<Rightarrow> exn + pystr"
  read_pdf :: "pystr \<Rightarrow> exn + (exn + pystr) list"
  read_docx :: "pystr \<Rightarrow> exn + pystr list"
  getsize :: "pystr \<Rightarrow> exn + int"
  copy2 :: "pystr \<Rightarrow> pystr \<Rightarrow> exn option"
  insert_raises :: "pystr \<Rightarrow> exn option"

text \<open>The two messages \<open>_extract_text_from_file\<close> returns in place of text.\<close>

definition UNSUPPORTED_FORMAT :: pystr where
  "UNSUPPORTED_FORMAT = [19981, 25903, 25345, 30340, 25991, 20214, 26684, 24335] @ ascii '': ''"

definition READ_ERROR :: pystr where
  "READ_ERROR = [25991, 20214, 35835, 21462, 38169, 35823] @ ascii '': ''"

fun exn_str :: "exn \<Rightarrow> pystr" where
  "exn_str (Exn msg) = msg"

text \<open>The loops over the pages of a PDF and over the paragraphs of a Word document.\<close>

fun pdf_loop :: "(exn + pystr) list \<Rightarrow> pystr \<Rightarrow> exn + pystr" where
  "pdf_loop [] text = Inr text"
| "pdf_loop (Inl e # pages) text = Inl e"
| "pdf_loop (Inr t # pages) text = pdf_loop pages (text @ t @ ascii ''\<newline>'')"

fun docx_loop :: "pystr list \<Rightarrow> pystr \<Rightarrow> pystr" where
  "docx_loop [] text = text"
| "docx_loop (p # paragraphs) text = docx_loop paragraphs (text @ p @ ascii ''\<newline>'')"

definition extract_text_from_file :: "doc_env \<Rightarrow> pystr \<Rightarrow> pystr" where
  "extract_text_from_file env file_path =
     (let file_ext = str_lower env (snd (splitext file_path))
      in if file_ext \<in> set [ascii ''.txt'', ascii ''.md'']
         then (case read_text env file_path of
                 Inl e \<Rightarrow> READ_ERROR @ exn_str e
               | Inr t \<Rightarrow> t)
         else if file_ext = ascii ''.pdf''
         then (case read_pdf env file_path of
                 Inl e \<Rightarrow> READ_ERROR @ exn_str e
               | Inr pages \<Rightarrow>
                   (case pdf_loop pages [] of
                      Inl e \<Rightarrow> READ_ERROR @ exn_str e
                    | Inr t \<Rightarrow> t))
         else if file_ext = ascii ''.docx''
         then (case read_docx env file_path of
                 Inl e \<Rightarrow> READ_ERROR @ exn_str e
               | Inr paragraphs \<Rightarrow> docx_loop paragraphs [])
         else UNSUPPORTED_FORMAT @ file_ext)"

text \<open>\<open>str.strip()\<close>: the characters for which \<open>str.isspace\<close> holds are removed at both ends.\<close>

definition is_space :: "nat \<Rightarrow> bool" where
  "is_space c =
     (c \<in> set [9, 10, 11, 12, 13, 28, 29, 30, 31, 32, 133, 160, 5760, 8232, 8233, 8239, 8287, 12288]
      \<or> (8192 \<le> c \<and> c \<le> 8202))"

definition strip :: "pystr \<Rightarrow> pystr" where
  "strip s = rev (dropWhile is_space (rev (dropWhile is_space s)))"

text \<open>
  The vector index, as far as \<open>add_document\<close> is concerned: the documents that have
  been inserted, each a text with its metadata dictionary. Chunking and embedding
  happen inside \<open>index.insert\<close>; an insertion that raises is taken to leave the index as
  it was.
\<close>

record document =
  doc_text :: pystr
  doc_metadata :: "(pystr \<times> pyval) list"

definition index_insert :: "doc_env \<Rightarrow> document list \<Rightarrow> document \<Rightarrow> exn + document list" where
  "index_insert env idx d =
     (case insert_raises env (doc_text d) of Some e \<Rightarrow> Inl e | None \<Rightarrow> Inr (idx @ [d]))"

definition documents_dir :: "pystr \<Rightarrow> pystr" where
  "documents_dir data_dir = path_join data_dir (ascii ''documents'')"

definition EMPTY_CONTENT :: pystr where
  "EMPTY_CONTENT = [25991, 26723, 20869, 23481, 20026, 31354]"

definition ADD_FAILED :: pystr where
  "ADD_FAILED = [28155, 21152, 25991, 26723, 22833, 36133] @ ascii '': ''"

definition supported_extensions :: "pystr list" where
  "supported_extensions = [ascii ''.txt'', ascii ''.md'', ascii ''.pdf'', ascii ''.docx'']"

text \<open>
  \<open>add_document\<close> returns its boolean, the messages it passed to \<open>st.error\<close> and the
  index afterwards (\<open>None\<close> when \<open>_initialize_index\<close> gave no index).
\<close>

definition add_document ::
  "doc_env \<Rightarrow> pystr \<Rightarrow> document list option \<Rightarrow> pystr \<Rightarrow> pystr \<Rightarrow>
   bool \<times> pystr list \<times> document list option" where
  "add_document env data_dir index file_path cat =
     (case index of
        None \<Rightarrow> (False, [], None)
      | Some idx \<Rightarrow>
          let file_ext = str_lower env (snd (splitext file_path))
          in if file_ext \<notin> set supported_extensions
             then (False, [UNSUPPORTED_FORMAT @ file_ext], Some idx)
             else
               let content = extract_text_from_file env file_path
               in if strip content = [] then (False, [EMPTY_CONTENT], Some idx)
                  else
                    (case getsize env file_path of
                       Inl e \<Rightarrow> (False, [ADD_FAILED @ exn_str e], Some idx)
                     | Inr sz \<Rightarrow>
                         let d = \<lparr> doc_text = content,
                                   doc_metadata =
                                     [(ascii ''file_path'', PStr file_path),
                                      (ascii ''file_name'', PStr (basename file_path)),
                                      (ascii ''category'', PStr cat),
                                      (ascii ''file_type'', PStr file_ext),
                                      (ascii ''file_size'', PInt sz)] \<rparr>
                         in case index_insert env idx d of
                              Inl e \<Rightarrow> (False, [ADD_FAILED @ exn_str e], Some idx)
                            | Inr idx' \<Rightarrow>
                                let dest_path = path_join (documents_dir data_dir) (basename file_path)
                                in if file_path \<noteq> dest_path
                                   then (case copy2 env file_path dest_path of
                                           Some e \<Rightarrow> (False, [ADD_FAILED @ exn_str e], Some idx')
                                         | None \<Rightarrow> (True, [], Some idx'))
                                   else (True, [], Some idx')))"

section \<open>Example data\<close>

text \<open>
  Concrete inputs for the instances evaluated below: the restriction of \<open>str.lower\<close> to
  ASCII, two image records, and a query engine that answers every query with the first
  \<open>top_k\<close> of two nodes, the second one with the score \<open>None\<close>.
\<close>

definition ascii_lower :: "pystr \<Rightarrow> pystr" where
  "ascii_lower s = map (\<lambda>c. if 65 \<le> c \<and> c \<le> 90 then c + 32 else c) s"

definition example_record :: "pystr \<Rightarrow> pystr \<Rightarrow> pystr list \<Rightarrow> pystr \<Rightarrow> image_record" where
  "example_record p cat tgs t =
     \<lparr> original_name = ascii ''a.png'', path = p, thumbnail_path = None, category = cat,
       tags = tgs, upload_time = Some t, size_bytes = None, width = None, height = None,
       format = None, mode = None, exif = None \<rparr>"

definition beach_record :: image_record where
  "beach_record =
     example_record (ascii ''p1'') (ascii ''general'') [ascii ''Beach'', ascii ''travel''] (ascii ''2024-01-01'')"

definition city_record :: image_record where
  "city_record = example_record (ascii ''p2'') (ascii ''work'') [ascii ''city''] (ascii ''2024-01-02'')"

definition example_store :: "(pystr \<times> image_record) list" where
  "example_store = [(ascii ''k1'', beach_record), (ascii ''k2'', city_record)]"

definition example_node :: "pystr \<Rightarrow> pystr \<Rightarrow> real option \<Rightarrow> node" where
  "example_node t cat s =
     \<lparr> node_text = t, node_metadata = [(ascii ''category'', PStr cat)], node_score = Some s \<rparr>"

definition example_engine :: "unit \<Rightarrow> nat \<Rightarrow> pystr \<Rightarrow> exn + node list" where
  "example_engine idx k q =
     Inr (take k [example_node (ascii ''x'') (ascii ''work'') (Some 2),
                  example_node (ascii ''y'') (ascii ''general'') None])"

text \<open>
  A record with an EXIF dictionary, a store whose image path is a directory and the
  same store with a file there, an upload with stand-ins for the libraries (PIL
  rejecting the bytes), and a document environment around a given \<open>read_text\<close>.
\<close>

definition exif_record :: "(pykey \<times> pyval) list \<Rightarrow> image_record" where
  "exif_record e =
     \<lparr> original_name = ascii ''a.jpg'', path = ascii ''p1'', thumbnail_path = None,
       category = ascii ''general'', tags = [], upload_time = None, size_bytes = None,
       width = None, height = None, format = None, mode = None, exif = Some e \<rparr>"

definition dir_record :: image_record where
  "dir_record = example_record (ascii ''d'') (ascii ''general'') [] (ascii ''2024-01-01'')"

definition dir_state :: state where
  "dir_state = \<lparr> metadata = [(ascii ''k'', dir_record)], files = [ascii ''d'' \<mapsto> Dir] \<rparr>"

definition file_state :: state where
  "file_state =
     \<lparr> metadata = [(ascii ''k'', dir_record)], files = [ascii ''d'' \<mapsto> File (Binary [1])] \<rparr>"

definition example_libs :: image_libs where
  "example_libs =
     \<lparr> md5_hexdigest = (\<lambda>b. ascii ''0cc175b9c0f1b6a831c399e269772661''),
       pil_thumbnail = (\<lambda>b. None),
       pil_image_info = (\<lambda>b. None) \<rparr>"

definition example_upload :: uploaded_file where
  "example_upload =
     \<lparr> up_name = ascii ''a.png'', up_type = ascii ''image/png'', up_getvalue = [97], up_size = 1 \<rparr>"

definition empty_state :: state where
  "empty_state = \<lparr> metadata = [], files = Map.empty \<rparr>"

definition example_doc_env :: "(pystr \<Rightarrow> exn + pystr) \<Rightarrow> doc_env" where
  "example_doc_env rd =
     \<lparr> str_lower = ascii_lower, read_text = rd,
       read_pdf = (\<lambda>p. Inl (Exn (ascii ''EOF marker not found''))), read_docx = (\<lambda>p. Inr []),
       getsize = (\<lambda>p. Inr 4), copy2 = (\<lambda>p d. None), insert_raises = (\<lambda>t. None) \<rparr>"

section \<open>Properties of image search\<close>

lemma search_images_loop_filter:
  "search_images_loop lower exists q cat tgs md acc =
     acc @ map (\<lambda>(k, m). make_image_result k m)
       (filter (\<lambda>(k, m). \<not> category_skip cat (category m) \<and> \<not> tags_skip lower tgs (tags m) \<and>
                  \<not> query_skip lower q m \<and> exists (path m)) md)"
proof (induction md arbitrary: acc)
  case Nil
  show ?case by simp
next
  case (Cons p md)
  obtain k m where p: "p = (k, m)" by (cases p)
  show ?case unfolding p by (simp add: Cons.IH)
qed

lemma not_skipped_iff:
  "(\<not> category_skip cat (category m) \<and> \<not> tags_skip lower tgs (tags m) \<and>
      \<not> query_skip lower q m \<and> exists (path m)) =
   ((case cat of None \<Rightarrow> True | Some c \<Rightarrow> c = [] \<or> c = ALL_CATEGORY \<or> category m = c) \<and>
    (case tgs of None \<Rightarrow> True
     | Some ts \<Rightarrow> ts = [] \<or> (\<exists>tag \<in> set ts. \<exists>t \<in> set (tags m). lower tag = lower t)) \<and>
    (q = [] \<or> sublist (lower q) (lower (original_name m @ ascii '' '' @ join (ascii '' '') (tags m)))) \<and>
    exists (path m))"
  by (auto simp: category_skip_def tags_skip_def query_skip_def search_text_def list_ex_iff
      split: option.splits)

lemma py_sort_reverse_mset: "mset (py_sort_reverse f xs) = mset xs"
  by (simp add: py_sort_reverse_def)

lemma py_sort_reverse_sorted: "sorted_wrt (\<lambda>a b. f b \<le> f a) (py_sort_reverse f xs)"
proof -
  have "sorted (map f (sort_key f (rev xs)))" by simp
  then have "sorted_wrt (\<lambda>a b. f a \<le> f b) (sort_key f (rev xs))"
    by (simp add: sorted_wrt_map)
  then show ?thesis
    unfolding py_sort_reverse_def by (simp add: sorted_wrt_rev)
qed

lemma search_images_set:
  "set (search_images lower exists md q cat tgs) =
     (\<lambda>(k, m). make_image_result k m) `
       {(k, m). (k, m) \<in> set md \<and> \<not> category_skip cat (category m) \<and>
          \<not> tags_skip lower tgs (tags m) \<and> \<not> query_skip lower q m \<and> exists (path m)}"
  unfolding search_images_def py_sort_reverse_def
  by (auto simp: search_images_loop_filter)

lemmas search_images_eval =
  search_images_def py_sort_reverse_def category_skip_def tags_skip_def query_skip_def
  search_text_def example_store_def beach_record_def city_record_def example_record_def
  ALL_CATEGORY_def ascii_def ascii_lower_def sublist_code prefix_code

text \<open>
  Claim C1, as the code has it. For every store, file system and query, the records
  \<open>search_images\<close> returns are exactly the stored records (each once per entry) that pass
  every filter that is switched on and whose image file exists, in descending order of
  upload time. The category filter is switched on by a category that is neither empty
  nor the wildcard \<open>ALL_CATEGORY\<close> and then asks for equality; the tag filter is switched
  on by a non-empty tag list and asks for one requested tag that equals a stored tag
  after lower-casing; the text filter is switched on by a non-empty query and asks for
  the lower-cased query to occur in the lower-cased original name, a space and the tags
  joined by spaces. The function returns a list and has no access to the store, so no
  record is deleted.
\<close>

theorem search_images_filters_sorted:
  "mset (search_images lower exists md q cat tgs) =
     mset (map (\<lambda>(k, m). make_image_result k m)
       (filter (\<lambda>(k, m).
          (case cat of None \<Rightarrow> True | Some c \<Rightarrow> c = [] \<or> c = ALL_CATEGORY \<or> category m = c) \<and>
          (case tgs of None \<Rightarrow> True
           | Some ts \<Rightarrow> ts = [] \<or> (\<exists>tag \<in> set ts. \<exists>t \<in> set (tags m). lower tag = lower t)) \<and>
          (q = [] \<or> sublist (lower q)
             (lower (original_name m @ ascii '' '' @ join (ascii '' '') (tags m)))) \<and>
          exists (path m)) md))
   \<and> sorted_wrt (\<lambda>a b. r_upload_time b \<le> r_upload_time a)
        (search_images lower exists md q cat tgs)"
  unfolding search_images_def
  by (simp add: py_sort_reverse_mset py_sort_reverse_sorted search_images_loop_filter
      not_skipped_iff del: mset_map)

text \<open>
  The instance of the scenario with two records, tagged Beach, travel and city: the
  query for the tag beach returns the first record only.
\<close>

theorem search_images_filters_sorted_witness:
  "mset (search_images ascii_lower (\<lambda>p. True) example_store [] None (Some [ascii ''beach''])) =
     mset [make_image_result (ascii ''k1'') beach_record]
   \<and> sorted_wrt (\<lambda>a b. r_upload_time b \<le> r_upload_time a)
        (search_images ascii_lower (\<lambda>p. True) example_store [] None (Some [ascii ''beach'']))"
  using search_images_filters_sorted
    [of ascii_lower "\<lambda>p. True" example_store "[]" None "Some [ascii ''beach'']"]
  by (simp add: example_store_def beach_record_def city_record_def example_record_def
      ascii_def ascii_lower_def)

text \<open>
  As it is written, the claim asks for the category of every returned record to equal
  the requested one whenever a category is given. With the category \<open>ALL_CATEGORY\<close> a
  record of category work is returned.
\<close>

theorem search_images_wildcard_counterexample:
  "search_images ascii_lower (\<lambda>p. True) [(ascii ''k2'', city_record)] [] (Some ALL_CATEGORY) None =
     [make_image_result (ascii ''k2'') city_record]
   \<and> category city_record \<noteq> ALL_CATEGORY"
  by (simp add: search_images_eval)

section \<open>Properties of document search\<close>

lemma search_documents_loop_filter:
  "search_documents_loop cat ns acc =
     acc @ map make_doc_result
       (filter (\<lambda>n. \<not> doc_category_skip cat (d_category (make_doc_result n))) ns)"
  by (induction ns arbitrary: acc) simp_all

lemma search_documents_cases:
  "search_documents query_engine index q cat k = [] \<or>
   (\<exists>idx ns. index = Some idx \<and> query_engine idx k q = Inr ns \<and>
      search_documents query_engine index q cat k =
        map make_doc_result
          (filter (\<lambda>n. \<not> doc_category_skip cat (d_category (make_doc_result n))) ns))"
  by (auto simp: search_documents_def search_documents_loop_filter split: option.splits sum.splits)





lemmas search_documents_eval =
  search_documents_def example_engine_def doc_category_skip_def make_doc_result_def
  example_node_def dict_get_def preview_def score_of_def ascii_def ALL_CATEGORY_def



section \<open>The category wildcard\<close>

lemma category_skip_wildcard: "category_skip (Some ALL_CATEGORY) c = category_skip None c"
  by (simp add: category_skip_def)

lemma category_skip_empty: "category_skip (Some []) c = category_skip None c"
  by (simp add: category_skip_def)

lemma doc_category_skip_wildcard:
  "doc_category_skip (Some ALL_CATEGORY) c = doc_category_skip None c"
  by (simp add: doc_category_skip_def)

lemma doc_category_skip_empty: "doc_category_skip (Some []) c = doc_category_skip None c"
  by (simp add: doc_category_skip_def)

text \<open>
  Claim C9, as the code has it. In both searches the category \<open>ALL_CATEGORY\<close> gives the
  same result as no category, and so does the empty string, which Python takes for
  false. Every other category string excludes the records of another category: all
  results have the requested category.
\<close>

theorem all_category_is_wildcard:
  "search_images lower exists md q (Some ALL_CATEGORY) tgs = search_images lower exists md q None tgs
   \<and> search_documents query_engine index q (Some ALL_CATEGORY) k =
       search_documents query_engine index q None k
   \<and> search_images lower exists md q (Some []) tgs = search_images lower exists md q None tgs
   \<and> search_documents query_engine index q (Some []) k = search_documents query_engine index q None k
   \<and> (c \<noteq> [] \<and> c \<noteq> ALL_CATEGORY \<longrightarrow>
        (\<forall>r \<in> set (search_images lower exists md q (Some c) tgs). r_category r = c) \<and>
        (\<forall>r \<in> set (search_documents query_engine index q (Some c) k). d_category r = PStr c))"
proof -
  have 1: "search_images lower exists md q (Some ALL_CATEGORY) tgs =
      search_images lower exists md q None tgs"
    by (simp add: search_images_def search_images_loop_filter category_skip_wildcard)
  have 2: "search_documents query_engine index q (Some ALL_CATEGORY) k =
       search_documents query_engine index q None k"
    by (simp add: search_documents_def search_documents_loop_filter doc_category_skip_wildcard
        split: option.splits sum.splits)
  have 3: "search_images lower exists md q (Some []) tgs = search_images lower exists md q None tgs"
    by (simp add: search_images_def search_images_loop_filter category_skip_empty)
  have 4: "search_documents query_engine index q (Some []) k =
      search_documents query_engine index q None k"
    by (simp add: search_documents_def search_documents_loop_filter doc_category_skip_empty
        split: option.splits sum.splits)
  have 5: "r_category r = c"
    if "c \<noteq> []" "c \<noteq> ALL_CATEGORY" "r \<in> set (search_images lower exists md q (Some c) tgs)" for r
    using that by (auto simp: search_images_set category_skip_def make_image_result_def)
  have 6: "d_category r = PStr c"
    if "c \<noteq> []" "c \<noteq> ALL_CATEGORY"
      "r \<in> set (search_documents query_engine index q (Some c) k)" for r
    using that search_documents_cases[of query_engine index q "Some c" k]
    by (auto simp: doc_category_skip_def)
  show ?thesis using 1 2 3 4 5 6 by blast
qed

text \<open>
  An instance with the category work: the wildcard returns both records of the example
  store, the category work only the record of that category, and the same holds for the
  two nodes of the example engine.
\<close>

theorem all_category_is_wildcard_witness:
  "ascii ''work'' \<noteq> [] \<and> ascii ''work'' \<noteq> ALL_CATEGORY
   \<and> search_images ascii_lower (\<lambda>p. True) example_store [] (Some ALL_CATEGORY) None =
       [make_image_result (ascii ''k2'') city_record, make_image_result (ascii ''k1'') beach_record]
   \<and> search_images ascii_lower (\<lambda>p. True) example_store [] (Some (ascii ''work'')) None =
       [make_image_result (ascii ''k2'') city_record]
   \<and> list_all (\<lambda>r. r_category r = ascii ''work'')
       (search_images ascii_lower (\<lambda>p. True) example_store [] (Some (ascii ''work'')) None)
   \<and> list_all (\<lambda>r. d_category r = PStr (ascii ''work''))
       (search_documents example_engine (Some ()) [] (Some (ascii ''work'')) 5)
   \<and> length (search_documents example_engine (Some ()) [] (Some ALL_CATEGORY) 5) = 2"
  using all_category_is_wildcard
    [of ascii_lower "\<lambda>p. True" example_store "[]" None example_engine "Some ()" 5 "ascii ''work''"]
  by (simp add: search_images_eval search_documents_eval make_image_result_def)

text \<open>
  As it is written, the claim lets every category string other than \<open>ALL_CATEGORY\<close>
  exclude the records of another category. The empty string is another string, the
  record has the category work, and the record is returned.
\<close>

theorem empty_category_counterexample:
  "[] \<noteq> ALL_CATEGORY \<and> category city_record \<noteq> []
   \<and> search_images ascii_lower (\<lambda>p. True) [(ascii ''k2'', city_record)] [] (Some []) None =
       [make_image_result (ascii ''k2'') city_record]"
  by (simp add: search_images_eval)

section \<open>Properties of the metadata store\<close>

lemmas metadata_eval =
  load_metadata_def save_metadata_def metadata_to_py_def record_to_py_def opt_item_def
  exif_record_def path_exists_def read_json_def dict_of_pairs_def str_of_int_def ascii_def

lemma those_map_roundtrip:
  assumes "\<And>x. x \<in> set xs \<Longrightarrow> \<exists>j. f x = Some j \<and> g j = x"
  shows "\<exists>js. those (map f xs) = Some js \<and> map g js = xs"
  using assms
proof (induction xs)
  case Nil
  then show ?case by simp
next
  case (Cons x xs)
  from Cons.prems[of x] obtain j where j: "f x = Some j" "g j = x" by auto
  from Cons.IH Cons.prems obtain js where js: "those (map f xs) = Some js" "map g js = xs"
    by auto
  show ?case using j js by simp
qed

lemma dict_of_pairs_acc:
  "distinct (map fst (acc @ kvs)) \<Longrightarrow>
   foldl (\<lambda>d kv. AList.update (fst kv) (snd kv) d) acc kvs = acc @ kvs"
proof (induction kvs arbitrary: acc)
  case Nil
  then show ?case by simp
next
  case (Cons kv kvs)
  have "fst kv \<notin> fst ` set acc" using Cons.prems by auto
  then have u: "AList.update (fst kv) (snd kv) acc = acc @ [kv]"
    by (induction acc) auto
  have "distinct (map fst ((acc @ [kv]) @ kvs))" using Cons.prems by simp
  from Cons.IH[OF this] show ?case by (simp add: u)
qed

lemma dict_of_pairs_distinct: "distinct (map fst kvs) \<Longrightarrow> dict_of_pairs kvs = kvs"
  using dict_of_pairs_acc[of "[]" kvs] by (simp add: dict_of_pairs_def)

lemma json_roundtrip:
  "json_native v \<Longrightarrow> \<exists>j. json_encode v = Some j \<and> json_decode j = v"
proof (induction v)
  case (PList xs)
  have "\<exists>js. those (map json_encode xs) = Some js \<and> map json_decode js = xs"
    by (rule those_map_roundtrip) (use PList in \<open>auto simp: list_all_iff\<close>)
  then show ?case by auto
next
  case (PDict kvs)
  let ?f = "\<lambda>kv. map_option (Pair (key_str (fst kv))) (json_encode (snd kv))"
  let ?g = "\<lambda>kv. (KStr (fst kv), json_decode (snd kv))"
  have "\<exists>j. ?f kv = Some j \<and> ?g j = kv" if "kv \<in> set kvs" for kv
  proof -
    obtain k v where kv: "kv = (k, v)" by (cases kv)
    from PDict.prems that kv have sk: "is_str_key k" and nat: "json_native v"
      by (auto simp: list_all_iff)
    from sk obtain s where k: "k = KStr s" by (cases k) auto
    from PDict.IH[of kv v] that kv nat obtain j where "json_encode v = Some j" "json_decode j = v"
      by auto
    then show ?thesis by (simp add: kv k)
  qed
  then have "\<exists>js. those (map ?f kvs) = Some js \<and> map ?g js = kvs"
    by (rule those_map_roundtrip)
  then obtain js where js: "those (map ?f kvs) = Some js" "map ?g js = kvs" by blast
  have "distinct (map fst kvs)" using PDict.prems by simp
  then show ?case using js by (simp add: dict_of_pairs_distinct)
qed simp_all

lemma save_load_roundtrip:
  assumes "json_native v" and "fls mf \<noteq> Some Dir"
  shows "load_metadata (save_metadata fls mf v) mf = v"
proof -
  from json_roundtrip[OF assms(1)] obtain j where j: "json_encode v = Some j" "json_decode j = v"
    by blast
  show ?thesis using assms(2) j
    by (auto simp: load_metadata_def save_metadata_def path_exists_def read_json_def
        split: option.splits fsnode.splits)
qed


lemma opt_item_subseq: "subseq (map fst (opt_item k f v)) [KStr (ascii k)]"
  by (cases v) (simp_all add: opt_item_def)

lemma opt_item_native:
  "list_all (\<lambda>kv. is_str_key (fst kv) \<and> json_native (snd kv)) (opt_item k f v) \<longleftrightarrow>
   (\<forall>x. v = Some x \<longrightarrow> json_native (f x))"
  by (auto simp: opt_item_def split: option.splits)

lemma record_keys_distinct:
  "distinct (map fst
     ([(KStr (ascii ''original_name''), a), (KStr (ascii ''path''), b)]
      @ opt_item ''thumbnail_path'' f3 v3
      @ [(KStr (ascii ''category''), c), (KStr (ascii ''tags''), d)]
      @ opt_item ''upload_time'' f6 v6
      @ opt_item ''size'' f7 v7
      @ opt_item ''width'' f8 v8
      @ opt_item ''height'' f9 v9
      @ opt_item ''format'' f10 v10
      @ opt_item ''mode'' f11 v11
      @ opt_item ''exif'' f12 v12))"
  (is "distinct ?keys")
proof -
  let ?all = "[KStr (ascii ''original_name''), KStr (ascii ''path'')]
      @ [KStr (ascii ''thumbnail_path'')]
      @ [KStr (ascii ''category''), KStr (ascii ''tags'')]
      @ [KStr (ascii ''upload_time'')]
      @ [KStr (ascii ''size'')]
      @ [KStr (ascii ''width'')]
      @ [KStr (ascii ''height'')]
      @ [KStr (ascii ''format'')]
      @ [KStr (ascii ''mode'')]
      @ [KStr (ascii ''exif'')]"
  have "subseq ?keys ?all"
    unfolding map_append
    by (intro list_emb_append_mono opt_item_subseq) simp_all
  then have "?keys \<in> set (subseqs ?all)" by (simp only: in_set_subseqs)
  moreover have "distinct ?all" by (simp add: ascii_def)
  ultimately show ?thesis by (rule subseqs_distinctD)
qed

lemma record_to_py_native:
  assumes "\<And>e. exif m = Some e \<Longrightarrow> json_native (PDict e)"
  shows "json_native (record_to_py m)"
proof -
  have tags: "list_all json_native (map PStr ts)" for ts
    by (induction ts) simp_all
  have ex: "\<forall>x. exif m = Some x \<longrightarrow> json_native (PDict x)" using assms by blast
  have vals: "list_all (\<lambda>kv. is_str_key (fst kv) \<and> json_native (snd kv))
     ([(KStr (ascii ''original_name''), PStr (original_name m)),
         (KStr (ascii ''path''), PStr (path m))]
        @ opt_item ''thumbnail_path'' PStr (thumbnail_path m)
        @ [(KStr (ascii ''category''), PStr (category m)),
           (KStr (ascii ''tags''), PList (map PStr (tags m)))]
        @ opt_item ''upload_time'' PStr (upload_time m)
        @ opt_item ''size'' PInt (size_bytes m)
        @ opt_item ''width'' PInt (width m)
        @ opt_item ''height'' PInt (height m)
        @ opt_item ''format'' PStr (format m)
        @ opt_item ''mode'' PStr (mode m)
        @ opt_item ''exif'' PDict (exif m))"
    unfolding list_all_append opt_item_native
    using ex by (simp add: tags del: json_native.simps(8))
  show ?thesis
    unfolding record_to_py_def json_native.simps(8)
    using record_keys_distinct vals by blast
qed

lemma metadata_to_py_native:
  assumes "distinct (map fst md)"
    and "\<And>k m e. (k, m) \<in> set md \<Longrightarrow> exif m = Some e \<Longrightarrow> json_native (PDict e)"
  shows "json_native (metadata_to_py md)"
proof -
  have "distinct (map (\<lambda>kv. KStr (fst kv)) md)"
    using assms(1) by (simp add: distinct_map inj_on_def comp_def)
  moreover have "json_native (record_to_py (snd kv))" if "kv \<in> set md" for kv
    using that assms(2)[of "fst kv" "snd kv"] by (intro record_to_py_native) auto
  ultimately show ?thesis
    by (simp add: metadata_to_py_def list_all_iff comp_def)
qed

text \<open>
  Saving and loading returns the store as it was when its keys are distinct, every
  EXIF dictionary in it can be represented in JSON, and the metadata file can be
  written.
\<close>

lemma save_load_native_records:
  assumes "distinct (map fst md)"
    and "\<And>k m e. (k, m) \<in> set md \<Longrightarrow> exif m = Some e \<Longrightarrow> json_native (PDict e)"
    and "fls mf \<noteq> Some Dir"
  shows "load_metadata (save_metadata fls mf (metadata_to_py md)) mf = metadata_to_py md"
  using metadata_to_py_native[OF assms(1,2)] assms(3) by (rule save_load_roundtrip)

text \<open>
  Claim C4. \<open>load_metadata\<close> is a total function of the file system: it returns the
  empty dictionary when the metadata file is missing, the decoded document when the
  file holds a JSON document, and the empty dictionary again when the path holds
  anything else (text that does not parse, bytes, a directory). No exception leaves it.
\<close>

theorem load_metadata_cases:
  "(fls mf = None \<longrightarrow> load_metadata fls mf = PDict [])
   \<and> (\<forall>j. fls mf = Some (File (Json_text j)) \<longrightarrow> load_metadata fls mf = json_decode j)
   \<and> (fls mf = Some (File Unparsable) \<or> (\<exists>b. fls mf = Some (File (Binary b))) \<or> fls mf = Some Dir
        \<longrightarrow> load_metadata fls mf = PDict [])"
  by (auto simp: load_metadata_def path_exists_def read_json_def)

text \<open>The three cases on concrete file systems.\<close>

theorem load_metadata_cases_witness:
  "load_metadata Map.empty (ascii ''m'') = PDict []
   \<and> load_metadata [ascii ''m'' \<mapsto> File (Json_text (JObj [(ascii ''k'', JArr [JInt 1])]))] (ascii ''m'')
       = PDict [(KStr (ascii ''k''), PList [PInt 1])]
   \<and> load_metadata [ascii ''m'' \<mapsto> File Unparsable] (ascii ''m'') = PDict []"
  using load_metadata_cases[of Map.empty "ascii ''m''"]
    load_metadata_cases[of "[ascii ''m'' \<mapsto> File (Json_text (JObj [(ascii ''k'', JArr [JInt 1])]))]" "ascii ''m''"]
    load_metadata_cases[of "[ascii ''m'' \<mapsto> File Unparsable]" "ascii ''m''"]
  by (simp add: dict_of_pairs_def)

text \<open>
  Claim C3 at a store that \<open>add_image\<close> builds for a JPEG with EXIF data: the EXIF
  dictionary holds a bytes value (as the tag ExifVersion does). \<open>json.dump\<close> raises on
  it, \<open>_save_metadata\<close> catches the exception, the file is left incomplete, and the
  next \<open>_load_metadata\<close> returns the empty dictionary instead of the store.
\<close>

theorem save_load_exif_bytes:
  "load_metadata
     (save_metadata Map.empty (ascii ''m'')
        (metadata_to_py [(ascii ''k'', exif_record [(KStr (ascii ''ExifVersion''), PBytes [48, 50, 51, 48])])]))
     (ascii ''m'') = PDict []
   \<and> metadata_to_py [(ascii ''k'', exif_record [(KStr (ascii ''ExifVersion''), PBytes [48, 50, 51, 48])])]
       \<noteq> PDict []"
  by (simp add: metadata_eval)

text \<open>
  Two more stores that do not come back as they were: an EXIF tag without a name keeps
  its integer id as key and is loaded as a string key, and a tuple is loaded as a list.
\<close>

lemma save_load_exif_int_key:
  "load_metadata
     (save_metadata Map.empty (ascii ''m'')
        (metadata_to_py [(ascii ''k'', exif_record [(KInt 37500, PInt 1)])]))
     (ascii ''m'') = metadata_to_py [(ascii ''k'', exif_record [(KStr (ascii ''37500''), PInt 1)])]
   \<and> metadata_to_py [(ascii ''k'', exif_record [(KStr (ascii ''37500''), PInt 1)])]
       \<noteq> metadata_to_py [(ascii ''k'', exif_record [(KInt 37500, PInt 1)])]"
  by (simp add: metadata_eval)

lemma save_load_exif_tuple:
  "load_metadata
     (save_metadata Map.empty (ascii ''m'')
        (metadata_to_py [(ascii ''k'', exif_record [(KStr (ascii ''x''), PTuple [PInt 72, PInt 1])])]))
     (ascii ''m'') = metadata_to_py [(ascii ''k'', exif_record [(KStr (ascii ''x''), PList [PInt 72, PInt 1])])]"
  by (simp add: metadata_eval)

section \<open>Properties of text extraction and document insertion\<close>

lemma file_ext_cases:
  "e \<notin> set supported_extensions \<longleftrightarrow>
   e \<notin> set [ascii ''.txt'', ascii ''.md''] \<and> e \<noteq> ascii ''.pdf'' \<and> e \<noteq> ascii ''.docx''"
  by (auto simp: supported_extensions_def)

text \<open>
  Claim C5, as the code has it. \<open>extract_text_from_file\<close> is a total function that
  returns a string in every case. For an extension outside the supported four the
  string is the unsupported-format message followed by the extension, so it depends on
  the extension alone; when reading or parsing raises, the string is the read-error
  message followed by the text of the exception. Both are values of the type of the
  extracted text itself.
\<close>

theorem extract_text_error_results:
  "(str_lower env (snd (splitext p)) \<notin> set supported_extensions \<longrightarrow>
      extract_text_from_file env p = UNSUPPORTED_FORMAT @ str_lower env (snd (splitext p)))
   \<and> (str_lower env (snd (splitext p)) \<in> set [ascii ''.txt'', ascii ''.md''] \<and>
        read_text env p = Inl e \<longrightarrow>
      extract_text_from_file env p = READ_ERROR @ exn_str e)
   \<and> (str_lower env (snd (splitext p)) = ascii ''.pdf'' \<and>
        (read_pdf env p = Inl e \<or>
         (\<exists>pages. read_pdf env p = Inr pages \<and> pdf_loop pages [] = Inl e)) \<longrightarrow>
      extract_text_from_file env p = READ_ERROR @ exn_str e)
   \<and> (str_lower env (snd (splitext p)) = ascii ''.docx'' \<and> read_docx env p = Inl e \<longrightarrow>
      extract_text_from_file env p = READ_ERROR @ exn_str e)"
proof -
  have pdf: "ascii ''.pdf'' \<notin> set [ascii ''.txt'', ascii ''.md'']" by (simp add: ascii_def)
  have docx: "ascii ''.docx'' \<notin> set [ascii ''.txt'', ascii ''.md'']"
    "ascii ''.docx'' \<noteq> ascii ''.pdf''" by (simp_all add: ascii_def)
  show ?thesis
    using pdf docx
    by (auto simp: extract_text_from_file_def Let_def file_ext_cases)
qed

lemmas extract_eval =
  extract_text_from_file_def example_doc_env_def splitext_def file_extension_def basename_def
  ascii_lower_def UNSUPPORTED_FORMAT_def READ_ERROR_def supported_extensions_def ascii_def

text \<open>An unsupported extension, a text file that cannot be read, a broken PDF.\<close>

theorem extract_text_error_results_witness:
  "extract_text_from_file (example_doc_env (\<lambda>p. Inr [])) (ascii ''d/a.ZIP'') =
     UNSUPPORTED_FORMAT @ ascii ''.zip''
   \<and> extract_text_from_file (example_doc_env (\<lambda>p. Inl (Exn (ascii ''boom'')))) (ascii ''a.txt'') =
     READ_ERROR @ ascii ''boom''
   \<and> extract_text_from_file (example_doc_env (\<lambda>p. Inr [])) (ascii ''a.pdf'') =
     READ_ERROR @ ascii ''EOF marker not found''"
  using extract_text_error_results
      [of "example_doc_env (\<lambda>p. Inr [])" "ascii ''d/a.ZIP''" "Exn []"]
    extract_text_error_results
      [of "example_doc_env (\<lambda>p. Inl (Exn (ascii ''boom'')))" "ascii ''a.txt''" "Exn (ascii ''boom'')"]
    extract_text_error_results
      [of "example_doc_env (\<lambda>p. Inr [])" "ascii ''a.pdf''" "Exn (ascii ''EOF marker not found'')"]
  by (simp add: extract_eval)

lemmas add_document_eval =
  add_document_def index_insert_def strip_def is_space_def documents_dir_def path_join_def
  EMPTY_CONTENT_def ADD_FAILED_def Let_def

text \<open>
  As it is written, the claim lets the caller tell an error result from extracted text.
  A text file whose content is the read-error message gives the very string that a
  failed read gives.
\<close>

theorem error_text_counterexample:
  "read_text (example_doc_env (\<lambda>p. Inr (READ_ERROR @ ascii ''boom''))) (ascii ''a.txt'') =
     Inr (READ_ERROR @ ascii ''boom'')
   \<and> read_text (example_doc_env (\<lambda>p. Inl (Exn (ascii ''boom'')))) (ascii ''a.txt'') =
     Inl (Exn (ascii ''boom''))
   \<and> extract_text_from_file (example_doc_env (\<lambda>p. Inr (READ_ERROR @ ascii ''boom''))) (ascii ''a.txt'') =
     extract_text_from_file (example_doc_env (\<lambda>p. Inl (Exn (ascii ''boom'')))) (ascii ''a.txt'')"
  by (simp add: extract_eval)

text \<open>
  What \<open>add_document\<close> does with the string of a failed read of a supported file: the
  string is not blank, so it is inserted into the index like extracted text.
\<close>

lemma add_document_inserts_read_error:
  "add_document (example_doc_env (\<lambda>p. Inl (Exn (ascii ''boom'')))) (ascii ''data'') (Some [])
       (ascii ''a.txt'') (ascii ''general'') =
     (True, [],
      Some [\<lparr> doc_text = READ_ERROR @ ascii ''boom'',
              doc_metadata =
                [(ascii ''file_path'', PStr (ascii ''a.txt'')),
                 (ascii ''file_name'', PStr (ascii ''a.txt'')),
                 (ascii ''category'', PStr (ascii ''general'')),
                 (ascii ''file_type'', PStr (ascii ''.txt'')),
                 (ascii ''file_size'', PInt 4)] \<rparr>])"
  by (simp add: extract_eval add_document_eval)

lemma all_dropWhile_iff: "(\<forall>x \<in> set (dropWhile P s). P x) \<longleftrightarrow> (\<forall>x \<in> set s. P x)"
proof
  assume h: "\<forall>x \<in> set (dropWhile P s). P x"
  have "set s = set (takeWhile P s) \<union> set (dropWhile P s)"
    by (metis set_append takeWhile_dropWhile_id)
  then show "\<forall>x \<in> set s. P x" using h by (auto dest: set_takeWhileD)
next
  assume "\<forall>x \<in> set s. P x"
  then show "\<forall>x \<in> set (dropWhile P s). P x" by (auto dest: set_dropWhileD)
qed

lemma strip_eq_Nil_iff: "strip s = [] \<longleftrightarrow> (\<forall>c \<in> set s. is_space c)"
  by (simp add: strip_def dropWhile_eq_Nil_conv all_dropWhile_iff)

lemma unsupported_not_blank: "strip (UNSUPPORTED_FORMAT @ e) \<noteq> []"
  by (simp add: strip_eq_Nil_iff UNSUPPORTED_FORMAT_def is_space_def)

lemma blank_text_supported:
  assumes "strip (extract_text_from_file env p) = []"
  shows "str_lower env (snd (splitext p)) \<in> set supported_extensions"
proof (rule ccontr)
  assume "str_lower env (snd (splitext p)) \<notin> set supported_extensions"
  then have "extract_text_from_file env p = UNSUPPORTED_FORMAT @ str_lower env (snd (splitext p))"
    by (auto simp: extract_text_from_file_def Let_def file_ext_cases)
  with assms unsupported_not_blank show False by simp
qed

lemma add_document_index_cases:
  "snd (snd (add_document env dd (Some idx) p cat)) = Some idx \<or>
   (strip (extract_text_from_file env p) \<noteq> [] \<and>
    (\<exists>md. snd (snd (add_document env dd (Some idx) p cat)) =
       Some (idx @ [\<lparr> doc_text = extract_text_from_file env p, doc_metadata = md \<rparr>])))"
  by (auto simp: add_document_def Let_def index_insert_def split: sum.splits option.splits)

text \<open>
  Claim C8, as the code has it. When the extracted text is empty or consists of white
  space only, \<open>add_document\<close> returns \<open>False\<close> and the index it was given; with an index
  at hand the message it reports is the empty-content message, since such a text can
  only come from a supported extension and the test stands before the insertion;
  without an index it reports nothing. Hence every document in the index has text that
  is not blank, provided that held before.
\<close>

theorem add_document_rejects_empty:
  "(strip (extract_text_from_file env p) = [] \<longrightarrow>
      fst (add_document env dd index p cat) = False
      \<and> snd (snd (add_document env dd index p cat)) = index
      \<and> (index \<noteq> None \<longrightarrow> fst (snd (add_document env dd index p cat)) = [EMPTY_CONTENT])
      \<and> (index = None \<longrightarrow> fst (snd (add_document env dd index p cat)) = []))
   \<and> ((\<forall>d \<in> set idx. strip (doc_text d) \<noteq> []) \<longrightarrow>
       (\<forall>idx'. snd (snd (add_document env dd (Some idx) p cat)) = Some idx' \<longrightarrow>
          (\<forall>d \<in> set idx'. strip (doc_text d) \<noteq> [])))"
proof -
  have a: "fst (add_document env dd index p cat) = False
      \<and> snd (snd (add_document env dd index p cat)) = index
      \<and> (index \<noteq> None \<longrightarrow> fst (snd (add_document env dd index p cat)) = [EMPTY_CONTENT])
      \<and> (index = None \<longrightarrow> fst (snd (add_document env dd index p cat)) = [])"
    if blank: "strip (extract_text_from_file env p) = []"
  proof (cases index)
    case None
    then show ?thesis by (simp add: add_document_def)
  next
    case (Some idx0)
    from blank_text_supported[OF blank] blank Some show ?thesis
      by (simp add: add_document_def Let_def)
  qed
  have b: "\<forall>d \<in> set idx'. strip (doc_text d) \<noteq> []"
    if inv: "\<forall>d \<in> set idx. strip (doc_text d) \<noteq> []"
      and res: "snd (snd (add_document env dd (Some idx) p cat)) = Some idx'" for idx'
    using add_document_index_cases[of env dd idx p cat] inv res by auto
  show ?thesis using a b by blast
qed

text \<open>A text file of a blank, a newline and a blank.\<close>

theorem add_document_rejects_empty_witness:
  "strip (extract_text_from_file (example_doc_env (\<lambda>p. Inr (ascii '' \<newline> ''))) (ascii ''a.txt'')) = []
   \<and> add_document (example_doc_env (\<lambda>p. Inr (ascii '' \<newline> ''))) (ascii ''data'') (Some [])
        (ascii ''a.txt'') (ascii ''general'') = (False, [EMPTY_CONTENT], Some [])"
  using add_document_rejects_empty
    [of "example_doc_env (\<lambda>p. Inr (ascii '' \<newline> ''))" "ascii ''a.txt''" "ascii ''data''"
        "Some []" "ascii ''general''" "[]"]
  by (simp add: extract_eval add_document_eval)

text \<open>
  As it is written, the claim gives the empty-content reason for every file of blank
  text. When \<open>_initialize_index\<close> gave no index, \<open>add_document\<close> returns \<open>False\<close> before
  it reads the file, and reports nothing.
\<close>

theorem add_document_no_index_counterexample:
  "strip (extract_text_from_file (example_doc_env (\<lambda>p. Inr (ascii '' \<newline> ''))) (ascii ''a.txt'')) = []
   \<and> add_document (example_doc_env (\<lambda>p. Inr (ascii '' \<newline> ''))) (ascii ''data'') None
        (ascii ''a.txt'') (ascii ''general'') = (False, [], None)
   \<and> [] \<noteq> [EMPTY_CONTENT]"
  by (simp add: extract_eval add_document_eval)

section \<open>Properties of the image manager\<close>

lemma save_metadata_other: "p \<noteq> mf \<Longrightarrow> save_metadata fls mf v p = fls p"
  by (simp add: save_metadata_def split: option.splits fsnode.splits)

lemma save_metadata_not_Dir: "fls p \<noteq> Some Dir \<Longrightarrow> save_metadata fls mf v p \<noteq> Some Dir"
  by (auto simp: save_metadata_def split: option.splits fsnode.splits if_splits)

lemma search_images_file_names:
  "r_file_name ` set (search_images lower exists md q cat tgs) \<subseteq> fst ` set md"
  by (force simp: search_images_set make_image_result_def)

lemma keys_delete: "fst ` set (AList.delete k al) = fst ` set al - {k}"
  by (induction al) auto

lemma remove_if_exists_result:
  "fls p \<noteq> Some Dir \<Longrightarrow> remove_if_exists fls p = Some (fls(p := None))"
  by (cases "fls p") (auto simp: remove_if_exists_def path_exists_def os_remove_def split: fsnode.splits)

text \<open>
  Claim C7, as the code has it. For an id that is not in the store \<open>delete_image\<close>
  returns \<open>False\<close> and changes nothing. For a stored id whose image path and thumbnail
  path are no directories (so that \<open>os.remove\<close> does not raise) and are not the metadata
  file, it returns \<open>True\<close>, the store is the old one without the entry, neither path
  exists afterwards, and no search over the new store returns the id.
\<close>

theorem delete_image_removes:
  "(map_of (metadata st) k = None \<longrightarrow> delete_image dd st k = (False, st))
   \<and> (\<forall>m. map_of (metadata st) k = Some m
          \<and> files st (path m) \<noteq> Some Dir
          \<and> (\<forall>t. thumbnail_path m = Some t \<longrightarrow> files st t \<noteq> Some Dir)
          \<and> path m \<noteq> metadata_file dd \<and> thumbnail_path m \<noteq> Some (metadata_file dd)
        \<longrightarrow> fst (delete_image dd st k) = True
          \<and> metadata (snd (delete_image dd st k)) = AList.delete k (metadata st)
          \<and> map_of (metadata (snd (delete_image dd st k))) k = None
          \<and> \<not> path_exists (files (snd (delete_image dd st k))) (path m)
          \<and> (\<forall>t. thumbnail_path m = Some t \<longrightarrow>
                \<not> path_exists (files (snd (delete_image dd st k))) t)
          \<and> (\<forall>lower exists q cat tgs.
                k \<notin> r_file_name `
                  set (search_images lower exists (metadata (snd (delete_image dd st k))) q cat tgs)))"
proof -
  have a: "delete_image dd st k = (False, st)" if "map_of (metadata st) k = None"
    using that by (simp add: delete_image_def)
  have b: "fst (delete_image dd st k) = True
          \<and> metadata (snd (delete_image dd st k)) = AList.delete k (metadata st)
          \<and> map_of (metadata (snd (delete_image dd st k))) k = None
          \<and> \<not> path_exists (files (snd (delete_image dd st k))) (path m)
          \<and> (\<forall>t. thumbnail_path m = Some t \<longrightarrow>
                \<not> path_exists (files (snd (delete_image dd st k))) t)
          \<and> (\<forall>lower exists q cat tgs.
                k \<notin> r_file_name `
                  set (search_images lower exists (metadata (snd (delete_image dd st k))) q cat tgs))"
    if m: "map_of (metadata st) k = Some m"
      and p: "files st (path m) \<noteq> Some Dir"
      and t: "\<forall>t. thumbnail_path m = Some t \<longrightarrow> files st t \<noteq> Some Dir"
      and pm: "path m \<noteq> metadata_file dd"
      and tm: "thumbnail_path m \<noteq> Some (metadata_file dd)" for m
  proof -
    let ?fls1 = "(files st)(path m := None)"
    let ?md = "AList.delete k (metadata st)"
    have r1: "remove_if_exists (files st) (path m) = Some ?fls1"
      using p by (rule remove_if_exists_result)
    obtain fls2 where r2:
      "(case thumbnail_path m of None \<Rightarrow> Some ?fls1 | Some t \<Rightarrow> remove_if_exists ?fls1 t) = Some fls2"
      and f2p: "fls2 (path m) = None"
      and f2t: "\<forall>t. thumbnail_path m = Some t \<longrightarrow> fls2 t = None"
    proof (cases "thumbnail_path m")
      case None
      then show ?thesis using that[of ?fls1] by simp
    next
      case (Some t')
      have "?fls1 t' \<noteq> Some Dir" using t Some by simp
      then have "remove_if_exists ?fls1 t' = Some (?fls1(t' := None))"
        by (rule remove_if_exists_result)
      then show ?thesis using that[of "?fls1(t' := None)"] Some by simp
    qed
    have res: "delete_image dd st k =
        (True, \<lparr> metadata = ?md,
                 files = save_metadata fls2 (metadata_file dd) (metadata_to_py ?md) \<rparr>)"
      using m r1 r2 by (simp add: delete_image_def Let_def)
    have gone: "k \<notin> fst ` set ?md" by (simp add: keys_delete)
    have q: "k \<notin> r_file_name ` set (search_images lower exists ?md q cat tgs)"
      for lower exists q cat tgs
      using gone search_images_file_names[of lower exists ?md q cat tgs] by blast
    show ?thesis
      using f2p f2t pm tm q
      by (auto simp: res path_exists_def save_metadata_other AList.delete_conv)
  qed
  show ?thesis using a b by blast
qed

lemmas delete_eval =
  delete_image_def remove_if_exists_def os_remove_def path_exists_def dir_state_def file_state_def
  dir_record_def example_record_def metadata_file_def path_join_def ascii_def

text \<open>Deleting the stored id and an unknown id from a store with one image file.\<close>

theorem delete_image_removes_witness:
  "fst (delete_image (ascii ''data'') file_state (ascii ''k'')) = True
   \<and> metadata (snd (delete_image (ascii ''data'') file_state (ascii ''k''))) = []
   \<and> \<not> path_exists (files (snd (delete_image (ascii ''data'') file_state (ascii ''k'')))) (ascii ''d'')
   \<and> delete_image (ascii ''data'') file_state (ascii ''x'') = (False, file_state)"
  using delete_image_removes[of file_state "ascii ''k''" "ascii ''data''"]
    delete_image_removes[of file_state "ascii ''x''" "ascii ''data''"]
  by (simp add: file_state_def dir_record_def example_record_def metadata_file_def path_join_def ascii_def)

text \<open>
  As it is written, the claim promises success for every stored id. When the image
  path of the record is a directory, \<open>os.remove\<close> raises, the \<open>except\<close> branch returns
  \<open>False\<close>, and the entry and the path are still there.
\<close>

theorem delete_image_directory_counterexample:
  "map_of (metadata dir_state) (ascii ''k'') = Some dir_record
   \<and> fst (delete_image (ascii ''data'') dir_state (ascii ''k'')) = False
   \<and> map_of (metadata (snd (delete_image (ascii ''data'') dir_state (ascii ''k'')))) (ascii ''k'') =
       Some dir_record
   \<and> path_exists (files (snd (delete_image (ascii ''data'') dir_state (ascii ''k'')))) (path dir_record)"
  by (simp add: delete_eval)

subsection \<open>Uploads\<close>

text \<open>
  The key of an upload is a function of its bytes and its name: the same bytes under the
  same name give the same key, and two keys are equal exactly when the names are equal
  and the first eight digits of the two digests are.
\<close>

lemma file_id_same_upload:
  "up_getvalue u1 = up_getvalue u2 \<Longrightarrow> up_name u1 = up_name u2 \<Longrightarrow> file_id libs u1 = file_id libs u2"
  by (simp add: file_id_def)

lemma file_id_eq_iff:
  assumes "length (md5_hexdigest libs (up_getvalue u1)) \<ge> 8"
    and "length (md5_hexdigest libs (up_getvalue u2)) \<ge> 8"
  shows "file_id libs u1 = file_id libs u2 \<longleftrightarrow>
    take 8 (md5_hexdigest libs (up_getvalue u1)) = take 8 (md5_hexdigest libs (up_getvalue u2)) \<and>
    up_name u1 = up_name u2"
  using assms by (auto simp: file_id_def)

lemma write_file_not_Dir:
  "write_file fls p c = Some fls' \<Longrightarrow> fls' q \<noteq> Some Dir \<longleftrightarrow> (q = p \<or> fls q \<noteq> Some Dir)"
  by (auto simp: write_file_def split: option.splits fsnode.splits if_splits)

lemma write_file_result:
  "fls p \<noteq> Some Dir \<Longrightarrow> write_file fls p c = Some (fls(p \<mapsto> File c))"
  by (cases "fls p") (auto simp: write_file_def split: fsnode.splits)

lemma generate_thumbnail_not_Dir:
  "fls p \<noteq> Some Dir \<Longrightarrow> snd (generate_thumbnail libs dd fls ip) p \<noteq> Some Dir"
  by (auto simp: generate_thumbnail_def Let_def write_file_def
      split: option.splits fsnode.splits content.splits if_splits)

lemma add_image_success:
  assumes "add_image libs dd now st up cat tgs = (True, st1)"
  shows "up_type up \<in> set allowed_types"
    and "files st1 (path_join (images_dir dd) (file_id libs up)) \<noteq> Some Dir"
    and "\<exists>thumb info. metadata st1 =
           AList.update (file_id libs up)
             (image_record_of up (path_join (images_dir dd) (file_id libs up)) thumb cat tgs now info)
             (metadata st)"
proof -
  let ?dest = "path_join (images_dir dd) (file_id libs up)"
  from assms show ty: "up_type up \<in> set allowed_types"
    by (auto simp: add_image_def split: if_splits)
  from assms ty obtain fls1 where w: "write_file (files st) ?dest (Binary (up_getvalue up)) = Some fls1"
    by (auto simp: add_image_def Let_def split: option.splits)
  from w have "fls1 ?dest \<noteq> Some Dir" by (simp add: write_file_not_Dir)
  then have "save_metadata (snd (generate_thumbnail libs dd fls1 ?dest)) (metadata_file dd) v ?dest \<noteq> Some Dir" for v
    by (intro save_metadata_not_Dir generate_thumbnail_not_Dir)
  with assms ty w show "files st1 ?dest \<noteq> Some Dir"
    by (auto simp: add_image_def Let_def)
  from assms ty w show "\<exists>thumb info. metadata st1 =
           AList.update (file_id libs up)
             (image_record_of up (path_join (images_dir dd) (file_id libs up)) thumb cat tgs now info)
             (metadata st)"
    by (auto simp: add_image_def Let_def intro!: exI)
qed

lemma add_image_accepts:
  assumes "up_type up \<in> set allowed_types"
    and "files st (path_join (images_dir dd) (file_id libs up)) \<noteq> Some Dir"
  shows "fst (add_image libs dd now st up cat tgs) = True"
    and "\<exists>thumb info. metadata (snd (add_image libs dd now st up cat tgs)) =
           AList.update (file_id libs up)
             (image_record_of up (path_join (images_dir dd) (file_id libs up)) thumb cat tgs now info)
             (metadata st)"
proof -
  obtain fls1 where w: "write_file (files st) (path_join (images_dir dd) (file_id libs up))
      (Binary (up_getvalue up)) = Some fls1"
    using assms(2)
      write_file_result[of "files st" "path_join (images_dir dd) (file_id libs up)"
        "Binary (up_getvalue up)"] by blast
  show "fst (add_image libs dd now st up cat tgs) = True"
    using assms(1) w by (simp add: add_image_def Let_def)
  show "\<exists>thumb info. metadata (snd (add_image libs dd now st up cat tgs)) =
           AList.update (file_id libs up)
             (image_record_of up (path_join (images_dir dd) (file_id libs up)) thumb cat tgs now info)
             (metadata st)"
    using assms(1) w by (auto simp: add_image_def Let_def intro!: exI)
qed

lemma update_keys_present: "k \<in> fst ` set al \<Longrightarrow> map fst (AList.update k v al) = map fst al"
  by (induction al) auto

lemma update_update_same: "AList.update k v (AList.update k w al) = AList.update k v al"
  by (induction al) auto

lemma count_distinct_key:
  "distinct (map fst al) \<Longrightarrow> k \<in> fst ` set al \<Longrightarrow> length (filter (\<lambda>kv. fst kv = k) al) = 1"
proof (induction al)
  case Nil
  then show ?case by simp
next
  case (Cons p al)
  show ?case
  proof (cases "fst p = k")
    case True
    with Cons.prems have "k \<notin> fst ` set al" by auto
    then have "filter (\<lambda>kv. fst kv = k) al = []" by (auto simp: filter_empty_conv)
    with True show ?thesis by simp
  next
    case False
    with Cons show ?thesis by auto
  qed
qed

text \<open>
  Claim C10. After an upload that \<open>add_image\<close> accepted, an upload of the same bytes
  under the same name is accepted again, whatever the time, category and tags: the keys
  of the store stay as they were, so the number of records does not grow, the record
  under the key is the new one with the new upload time, and in a store whose keys were
  distinct exactly one record has the key.
\<close>

theorem add_image_twice_one_record:
  assumes first: "add_image libs dd now1 st up cat1 tgs1 = (True, st1)"
  shows "fst (add_image libs dd now2 st1 up cat2 tgs2) = True
    \<and> map fst (metadata (snd (add_image libs dd now2 st1 up cat2 tgs2))) = map fst (metadata st1)
    \<and> length (metadata (snd (add_image libs dd now2 st1 up cat2 tgs2))) = length (metadata st1)
    \<and> (\<exists>m. map_of (metadata (snd (add_image libs dd now2 st1 up cat2 tgs2))) (file_id libs up) = Some m
          \<and> upload_time m = Some now2)
    \<and> (distinct (map fst (metadata st)) \<longrightarrow>
         length (filter (\<lambda>kv. fst kv = file_id libs up)
           (metadata (snd (add_image libs dd now2 st1 up cat2 tgs2)))) = 1)"
proof -
  let ?k = "file_id libs up"
  let ?st2 = "snd (add_image libs dd now2 st1 up cat2 tgs2)"
  from add_image_success[OF first] obtain m1 where
    ty: "up_type up \<in> set allowed_types"
    and nd: "files st1 (path_join (images_dir dd) ?k) \<noteq> Some Dir"
    and md1: "metadata st1 = AList.update ?k m1 (metadata st)" by blast
  from add_image_accepts[OF ty nd, of now2 cat2 tgs2] obtain thumb info where
    ok: "fst (add_image libs dd now2 st1 up cat2 tgs2) = True"
    and md2': "metadata ?st2 = AList.update ?k
        (image_record_of up (path_join (images_dir dd) ?k) thumb cat2 tgs2 now2 info) (metadata st1)"
    by blast
  define m2 where "m2 = image_record_of up (path_join (images_dir dd) ?k) thumb cat2 tgs2 now2 info"
  have md2: "metadata ?st2 = AList.update ?k m2 (metadata st1)" using md2' by (simp add: m2_def)
  have t2: "upload_time m2 = Some now2" by (simp add: m2_def image_record_of_def)
  have present: "?k \<in> fst ` set (metadata st1)"
    by (simp add: md1 AList.dom_update)
  have keys: "map fst (metadata ?st2) = map fst (metadata st1)"
    by (simp add: md2 update_keys_present[OF present])
  have len: "length (metadata ?st2) = length (metadata st1)"
    using keys by (metis length_map)
  have look: "map_of (metadata ?st2) ?k = Some m2"
    by (simp add: md2 AList.update_conv')
  have one: "length (filter (\<lambda>kv. fst kv = ?k) (metadata ?st2)) = 1"
    if d: "distinct (map fst (metadata st))"
  proof -
    have "distinct (map fst (metadata st1))" using d by (simp add: md1 AList.distinct_update)
    then have "distinct (map fst (metadata ?st2))" by (simp add: keys)
    moreover have "?k \<in> fst ` set (metadata ?st2)" by (simp add: md2 AList.dom_update)
    ultimately show ?thesis by (rule count_distinct_key)
  qed
  show ?thesis using ok keys len look t2 one by blast
qed

lemma example_first_upload:
  "fst (add_image example_libs (ascii ''data'') (ascii ''t1'') empty_state example_upload (ascii ''general'') None)"
  by (simp add: add_image_def Let_def write_file_def empty_state_def example_upload_def allowed_types_def ascii_def)

text \<open>Two uploads of the example file into the empty store.\<close>

theorem add_image_twice_one_record_witness:
  "fst (add_image example_libs (ascii ''data'') (ascii ''t1'') empty_state example_upload
          (ascii ''general'') None) = True
   \<and> fst (add_image example_libs (ascii ''data'') (ascii ''t2'')
          (snd (add_image example_libs (ascii ''data'') (ascii ''t1'') empty_state example_upload
             (ascii ''general'') None))
          example_upload (ascii ''general'') None) = True
   \<and> map fst (metadata (snd (add_image example_libs (ascii ''data'') (ascii ''t2'')
          (snd (add_image example_libs (ascii ''data'') (ascii ''t1'') empty_state example_upload
             (ascii ''general'') None))
          example_upload (ascii ''general'') None))) = [ascii ''0cc175b9_a.png'']"
proof -
  let ?first = "add_image example_libs (ascii ''data'') (ascii ''t1'') empty_state example_upload
          (ascii ''general'') None"
  have ok: "fst ?first = True" using example_first_upload by simp
  then have h: "?first = (True, snd ?first)" by (simp add: prod_eq_iff)
  have keys1: "map fst (metadata (snd ?first)) = [ascii ''0cc175b9_a.png'']"
    by (simp add: add_image_def Let_def write_file_def empty_state_def example_upload_def
        allowed_types_def file_id_def example_libs_def ascii_def)
  from add_image_twice_one_record[OF h, of "ascii ''t2''" "ascii ''general''" None]
  show ?thesis using ok keys1 by simp
qed

end
